theory Spec2Isabelle
  imports Main
begin

section \<open>Scope\<close>

text \<open>
  A shallow embedding of the task execution and worktree merge handlers of the web server
  (\<^verbatim>\<open>auto-claude-ui/src/web/server.ts\<close>, the current version that makes up the first
  5443 lines of the file): \<^verbatim>\<open>startLogWatching\<close>, \<^verbatim>\<open>stopLogWatching\<close>,
  \<^verbatim>\<open>getAutoBuildPath\<close>, and the handlers of \<^verbatim>\<open>GET /api/tasks\<close>,
  \<^verbatim>\<open>POST /api/tasks/:id/start\<close> (with the child's \<^verbatim>\<open>exit\<close> and \<^verbatim>\<open>error\<close>
  listeners), \<^verbatim>\<open>POST /api/tasks/:id/stop\<close>, \<^verbatim>\<open>POST /api/tasks/:id/worktree/merge\<close>
  and \<^verbatim>\<open>GET /api/tasks/:id/logs\<close>.

  What the code does to the outside world is made explicit:
  \<^item> the file system is a map from paths to nodes; a file holds its text;
  \<^item> \<^verbatim>\<open>JSON.parse\<close>, \<^verbatim>\<open>JSON.stringify\<close> and \<^verbatim>\<open>execSync\<close> (git) are parameters,
    collected in an environment record, so every theorem holds for any behaviour of
    the parser and of the repository;
  \<^item> every observable action (broadcast, kill, spawn, git command, file write, timer)
    is appended to one chronological effect log;
  \<^item> a thrown exception is a value (\<open>None\<close>, or \<open>Inl\<close> with the message).

  Not modelled: console output, the response of Express to an uncaught exception other
  than as an explicit value, path normalisation in \<^verbatim>\<open>path.join\<close> (segments are joined
  with a slash), the environment variables passed to the child, the title and
  description of a listed task, and the fields of the merged logs other than the phases.
\<close>

section \<open>JSON values and the JavaScript operations used on them\<close>

datatype json =
    JNull
  | JBool bool
  | JNum int
  | JStr string
  | JArr "json list"
  | JObj "(string \<times> json) list"

text \<open>
  A value that may be \<^verbatim>\<open>undefined\<close> is a \<open>json option\<close>. Truthiness as in
  \<^verbatim>\<open>if (v)\<close>, \<^verbatim>\<open>!v\<close>, \<^verbatim>\<open>a || b\<close>, \<^verbatim>\<open>a && b\<close>.
\<close>

fun truthy :: "json option \<Rightarrow> bool" where
  "truthy None = False"
| "truthy (Some JNull) = False"
| "truthy (Some (JBool b)) = b"
| "truthy (Some (JNum n)) = (n \<noteq> 0)"
| "truthy (Some (JStr s)) = (s \<noteq> [])"
| "truthy (Some (JArr xs)) = True"
| "truthy (Some (JObj kvs)) = True"

text \<open>\<^verbatim>\<open>a || d\<close> where \<open>d\<close> is defined.\<close>

fun js_or :: "json option \<Rightarrow> json \<Rightarrow> json" where
  "js_or None d = d"
| "js_or (Some v) d = (if truthy (Some v) then v else d)"

text \<open>
  \<^verbatim>\<open>v.k\<close> for a value \<open>v\<close> that is not \<^verbatim>\<open>null\<close>, and for the property names
  the handlers read (none of them is an own property of an array, string, number or boolean).
\<close>

fun js_get :: "json \<Rightarrow> string \<Rightarrow> json option" where
  "js_get (JObj kvs) k = map_of kvs k"
| "js_get v k = None"

text \<open>\<^verbatim>\<open>v.k\<close> in general: reading a property of \<^verbatim>\<open>null\<close> throws a TypeError (\<open>None\<close>).\<close>

fun js_member :: "json \<Rightarrow> string \<Rightarrow> json option option" where
  "js_member JNull k = None"
| "js_member v k = Some (js_get v k)"


text \<open>
  \<^verbatim>\<open>v.k = x\<close>, as seen through a later \<^verbatim>\<open>JSON.stringify(v)\<close>. An object gets the
  property (in place, or appended as the last key). An array accepts the assignment but
  \<^verbatim>\<open>JSON.stringify\<close> prints its elements only. On \<^verbatim>\<open>null\<close> and on a primitive the
  assignment throws a TypeError (the file is an ES module, hence strict code).
\<close>

fun obj_set :: "(string \<times> json) list \<Rightarrow> string \<Rightarrow> json \<Rightarrow> (string \<times> json) list" where
  "obj_set [] k x = [(k, x)]"
| "obj_set ((k', x') # kvs) k x = (if k' = k then (k, x) # kvs else (k', x') # obj_set kvs k x)"

fun js_set :: "json \<Rightarrow> string \<Rightarrow> json \<Rightarrow> json option" where
  "js_set (JObj kvs) k x = Some (JObj (obj_set kvs k x))"
| "js_set (JArr xs) k x = Some (JArr xs)"
| "js_set v k x = None"

subsection \<open>Strings\<close>

definition is_space :: "char \<Rightarrow> bool" where
  "is_space c = (c \<in> {CHR '' '', CHR 0x09, CHR 0x0A, CHR 0x0B, CHR 0x0C, CHR 0x0D})"

definition js_trim :: "string \<Rightarrow> string" where
  "js_trim s = rev (dropWhile is_space (rev (dropWhile is_space s)))"

fun starts_with :: "string \<Rightarrow> string \<Rightarrow> bool" where
  "starts_with s [] = True"
| "starts_with [] (b # bs) = False"
| "starts_with (a # as) (b # bs) = (a = b \<and> starts_with as bs)"

text \<open>\<^verbatim>\<open>s.includes(sub)\<close>\<close>

fun js_includes :: "string \<Rightarrow> string \<Rightarrow> bool" where
  "js_includes [] sub = (sub = [])"
| "js_includes (c # cs) sub = (starts_with (c # cs) sub \<or> js_includes cs sub)"

text \<open>\<^verbatim>\<open>s.split(sep)\<close> for a one-character separator.\<close>

fun split_on :: "char \<Rightarrow> string \<Rightarrow> string list" where
  "split_on sep [] = [[]]"
| "split_on sep (c # cs) =
     (if c = sep then [] # split_on sep cs
      else (case split_on sep cs of [] \<Rightarrow> [[c]] | l # ls \<Rightarrow> (c # l) # ls))"

text \<open>\<^verbatim>\<open>path.join\<close>, without normalisation.\<close>

fun path_join :: "string list \<Rightarrow> string" where
  "path_join [] = ''.''"
| "path_join [p] = p"
| "path_join (p # q # ps) = p @ ''/'' @ path_join (q # ps)"

section \<open>The world of the server\<close>

subsection \<open>File system\<close>

datatype node = Dir | File string

type_synonym filesystem = "string \<Rightarrow> node option"

definition existsSync :: "filesystem \<Rightarrow> string \<Rightarrow> bool" where
  "existsSync f p = (f p \<noteq> None)"

text \<open>\<^verbatim>\<open>readFileSync(p, 'utf-8')\<close>; \<open>None\<close>: it throws (no such file, or a directory).\<close>

definition readFileSync :: "filesystem \<Rightarrow> string \<Rightarrow> string option" where
  "readFileSync f p = (case f p of Some (File t) \<Rightarrow> Some t | _ \<Rightarrow> None)"

text \<open>
  \<^verbatim>\<open>writeFileSync(p, t)\<close>; \<open>None\<close>: it throws (the path is a directory). A missing parent
  directory is not modelled.
\<close>

definition writeFileSync :: "filesystem \<Rightarrow> string \<Rightarrow> string \<Rightarrow> filesystem option" where
  "writeFileSync f p t = (case f p of Some Dir \<Rightarrow> None | _ \<Rightarrow> Some (f(p \<mapsto> File t)))"

definition unlinkSync :: "filesystem \<Rightarrow> string \<Rightarrow> filesystem option" where
  "unlinkSync f p = (case f p of Some (File t) \<Rightarrow> Some (f(p := None)) | _ \<Rightarrow> None)"

text \<open>\<^verbatim>\<open>rmSync(d, { recursive: true, force: true })\<close>\<close>

definition rmSync :: "filesystem \<Rightarrow> string \<Rightarrow> filesystem" where
  "rmSync f d = (\<lambda>q. if q = d \<or> starts_with q (d @ ''/'') then None else f q)"

subsection \<open>Git commands\<close>

text \<open>
  The commands the handlers pass to \<^verbatim>\<open>execSync\<close>. A branch that is interpolated from a
  JSON value (\<^verbatim>\<open>${baseBranch}\<close>) is kept as that value.
\<close>

datatype gitcmd =
    RevParseVerifyMain             \<comment> \<open>\<^verbatim>\<open>git rev-parse --verify main\<close>\<close>
  | RevParseAbbrevHead             \<comment> \<open>\<^verbatim>\<open>git rev-parse --abbrev-ref HEAD\<close>\<close>
  | Checkout json                  \<comment> \<open>\<^verbatim>\<open>git checkout ${baseBranch}\<close>\<close>
  | LogOneline json string         \<comment> \<open>\<^verbatim>\<open>git log ${baseBranch}..${branchName} --oneline\<close>\<close>
  | MergeAbort                     \<comment> \<open>\<^verbatim>\<open>git merge --abort\<close>\<close>
  | StatusExclWorktrees            \<comment> \<open>\<^verbatim>\<open>git status --porcelain -- . ":(exclude).worktrees"\<close>\<close>
  | StashPush                      \<comment> \<open>\<^verbatim>\<open>git stash push -m "Pre-merge stash" -- . ":(exclude).worktrees"\<close>\<close>
  | LsFilesOrUntracked string      \<comment> \<open>\<^verbatim>\<open>git ls-files --error-unmatch "${dir}" 2>/dev/null || echo "untracked"\<close>\<close>
  | Merge string                   \<comment> \<open>\<^verbatim>\<open>git merge ${branchName} --no-edit\<close>\<close>
  | StatusPorcelain                \<comment> \<open>\<^verbatim>\<open>git status --porcelain\<close>\<close>
  | Rm string                      \<comment> \<open>\<^verbatim>\<open>git rm "${file}"\<close>\<close>
  | CheckoutTheirs string          \<comment> \<open>\<^verbatim>\<open>git checkout --theirs "${file}"\<close>\<close>
  | Add string                     \<comment> \<open>\<^verbatim>\<open>git add "${file}"\<close>\<close>
  | SubmodulePaths                 \<comment> \<open>\<^verbatim>\<open>git config --file .gitmodules --get-regexp path | cut -d" " -f2\<close>\<close>
  | CheckoutHead string            \<comment> \<open>\<^verbatim>\<open>git checkout HEAD -- "${submodule}"\<close>\<close>
  | AddAll                         \<comment> \<open>\<^verbatim>\<open>git add -A\<close>\<close>
  | Commit string                  \<comment> \<open>\<^verbatim>\<open>git commit -m "${msg}"\<close>\<close>
  | MergeContinue                  \<comment> \<open>\<^verbatim>\<open>git merge --continue\<close>\<close>
  | StashPop                       \<comment> \<open>\<^verbatim>\<open>git stash pop\<close>\<close>
  | StashDrop                      \<comment> \<open>\<^verbatim>\<open>git stash drop\<close>\<close>

text \<open>The commands that only inspect the repository.\<close>

fun read_only :: "gitcmd \<Rightarrow> bool" where
  "read_only RevParseVerifyMain = True"
| "read_only RevParseAbbrevHead = True"
| "read_only (LogOneline b br) = True"
| "read_only StatusExclWorktrees = True"
| "read_only (LsFilesOrUntracked d) = True"
| "read_only StatusPorcelain = True"
| "read_only SubmodulePaths = True"
| "read_only c = False"

subsection \<open>Environment, effects and state\<close>

text \<open>
  \<open>JSON_parse\<close> returns \<open>None\<close> where \<^verbatim>\<open>JSON.parse\<close> throws. \<open>execSync\<close> takes the
  command, the working directory, and the repository with the file system; it returns
  the output (\<open>Inr\<close>) or the message of the error it throws (\<open>Inl\<close>), and the repository
  and file system it leaves. \<open>possiblePaths\<close> is the list that \<^verbatim>\<open>getAutoBuildPath\<close>
  searches (it depends on \<^verbatim>\<open>__dirname\<close> and the working directory of the server).
  \<open>subdirs f d\<close> is the list of names
  \<^verbatim>\<open>readdirSync(d, { withFileTypes: true }).filter((e) => e.isDirectory()).map((e) => e.name)\<close>.
\<close>

record 'r env =
  JSON_parse :: "string \<Rightarrow> json option"
  JSON_stringify :: "json \<Rightarrow> string"
  execSync :: "gitcmd \<Rightarrow> string \<Rightarrow> 'r \<times> filesystem \<Rightarrow> (string + string) \<times> 'r \<times> filesystem"
  possiblePaths :: "string list"
  subdirs :: "filesystem \<Rightarrow> string \<Rightarrow> string list"

datatype effect =
    Kill nat                               \<comment> \<open>\<^verbatim>\<open>process.kill()\<close> on the child with this number\<close>
  | Spawn nat string "string list" string  \<comment> \<open>\<^verbatim>\<open>spawn(command, args, { cwd })\<close>, giving this child\<close>
  | Exec gitcmd string                     \<comment> \<open>\<^verbatim>\<open>execSync(command, { cwd })\<close>\<close>
  | Broadcast string json                  \<comment> \<open>\<^verbatim>\<open>broadcast(event, data)\<close>\<close>
  | WriteFile string                       \<comment> \<open>a \<^verbatim>\<open>writeFileSync\<close> that did not throw\<close>
  | SetInterval nat
  | ClearInterval nat

record Project =
  p_id :: string
  p_path :: string

record RunningTask =
  rt_taskId :: string
  rt_process :: nat
  rt_projectPath :: string

text \<open>
  A watcher entry with the variables its interval callback closes over
  (\<^verbatim>\<open>lastContent\<close>, \<^verbatim>\<open>lastWorktreeContent\<close>, \<^verbatim>\<open>lastPlanStatus\<close>).
\<close>

record LogWatcher =
  lw_specId :: string
  lw_projectPath :: string
  lastContent :: string
  lastWorktreeContent :: string
  lastPlanStatus :: json
  interval :: nat

text \<open>
  \<open>projects\<close> is what \<^verbatim>\<open>loadStore().projects\<close> returns; \<open>next_id\<close> numbers the child
  processes and timers as they are created.
\<close>

record 'r world =
  files :: filesystem
  repo :: 'r
  projects :: "Project list"
  runningTasks :: "string \<Rightarrow> RunningTask option"
  logWatchers :: "string \<Rightarrow> LogWatcher option"
  effects :: "effect list"
  next_id :: nat

record response =
  http_status :: nat
  body :: json

definition emit :: "effect \<Rightarrow> 'r world \<Rightarrow> 'r world" where
  "emit e w = w\<lparr>effects := effects w @ [e]\<rparr>"

definition broadcast :: "string \<Rightarrow> json \<Rightarrow> 'r world \<Rightarrow> 'r world" where
  "broadcast event data w = emit (Broadcast event data) w"

text \<open>
  Running a git command: the command is logged; a command that only inspects the
  repository leaves repository and files as they are.
\<close>

definition exec :: "'r env \<Rightarrow> gitcmd \<Rightarrow> string \<Rightarrow> 'r world \<Rightarrow> (string + string) \<times> 'r world" where
  "exec E c cwd w =
     (case execSync E c cwd (repo w, files w) of
        (res, r', f') \<Rightarrow>
          (res, if read_only c then emit (Exec c cwd) w
                else emit (Exec c cwd) (w\<lparr>repo := r', files := f'\<rparr>)))"

definition planPathOf :: "string \<Rightarrow> string \<Rightarrow> string" where
  "planPathOf projectPath taskId =
     path_join [projectPath, ''.auto-claude'', ''specs'', taskId, ''implementation_plan.json'']"

section \<open>Log watching\<close>

definition stopLogWatching :: "string \<Rightarrow> 'r world \<Rightarrow> 'r world" where
  "stopLogWatching specId w =
     (case logWatchers w specId of
        Some watcher \<Rightarrow>
          (emit (ClearInterval (interval watcher)) w)\<lparr>logWatchers := (logWatchers w)(specId := None)\<rparr>
      | None \<Rightarrow> w)"

definition specDirOf :: "string \<Rightarrow> string \<Rightarrow> string" where
  "specDirOf projectPath specId = path_join [projectPath, ''.auto-claude'', ''specs'', specId]"

definition worktreeSpecDirOf :: "string \<Rightarrow> string \<Rightarrow> string" where
  "worktreeSpecDirOf projectPath specId =
     path_join [projectPath, ''.worktrees'', specId, ''.auto-claude'', ''specs'', specId]"

text \<open>\<^verbatim>\<open>JSON.parse(readFileSync(p)).status || ''\<close>, or \<open>None\<close> when any step throws.\<close>

definition readPlanStatus :: "'r env \<Rightarrow> filesystem \<Rightarrow> string \<Rightarrow> json option" where
  "readPlanStatus E f p =
     (case readFileSync f p of
        None \<Rightarrow> None
      | Some t \<Rightarrow>
          (case JSON_parse E t of
             None \<Rightarrow> None
           | Some plan \<Rightarrow>
               (case js_member plan ''status'' of
                  None \<Rightarrow> None
                | Some st \<Rightarrow> Some (js_or st (JStr '''')))))"

definition startLogWatching :: "'r env \<Rightarrow> string \<Rightarrow> string \<Rightarrow> 'r world \<Rightarrow> 'r world" where
  "startLogWatching E specId projectPath w0 =
     (let w = stopLogWatching specId w0;
          specDir = specDirOf projectPath specId;
          worktreeSpecDir = worktreeSpecDirOf projectPath specId;
          mainLogFile = path_join [specDir, ''task_logs.json''];
          worktreeLogFile = path_join [worktreeSpecDir, ''task_logs.json''];
          mainPlanFile = path_join [specDir, ''implementation_plan.json''];
          worktreePlanFile = path_join [worktreeSpecDir, ''implementation_plan.json''];
          lc = (if existsSync (files w) mainLogFile
                then (case readFileSync (files w) mainLogFile of Some t \<Rightarrow> t | None \<Rightarrow> '''')
                else '''');
          lwc = (if existsSync (files w) worktreeLogFile
                 then (case readFileSync (files w) worktreeLogFile of Some t \<Rightarrow> t | None \<Rightarrow> '''')
                 else '''');
          planFile = (if existsSync (files w) worktreePlanFile then worktreePlanFile else mainPlanFile);
          lps = (if existsSync (files w) planFile
                 then (case readPlanStatus E (files w) planFile of Some st \<Rightarrow> st | None \<Rightarrow> JStr '''')
                 else JStr '''');
          timer = next_id w
      in (emit (SetInterval timer) w)
           \<lparr>next_id := Suc timer,
            logWatchers := (logWatchers w)(specId \<mapsto>
              \<lparr>lw_specId = specId, lw_projectPath = projectPath, lastContent = lc,
               lastWorktreeContent = lwc, lastPlanStatus = lps, interval = timer\<rparr>)\<rparr>)"

section \<open>Starting and stopping a task\<close>

definition getAutoBuildPath :: "'r env \<Rightarrow> filesystem \<Rightarrow> string option" where
  "getAutoBuildPath E f =
     find (\<lambda>p. existsSync f p \<and> existsSync f (path_join [p, ''run.py''])) (possiblePaths E)"

text \<open>
  The request: \<^verbatim>\<open>req.params.id\<close>, \<^verbatim>\<open>req.body.projectId\<close>, and whether
  \<^verbatim>\<open>options?.force || req.body.force\<close> is truthy.
\<close>

record start_req =
  sr_taskId :: string
  sr_projectId :: string
  sr_force :: bool

definition json_error :: "nat \<Rightarrow> string \<Rightarrow> response" where
  "json_error code msg =
     \<lparr>http_status = code, body = JObj [(''success'', JBool False), (''error'', JStr msg)]\<rparr>"

definition json_success :: response where
  "json_success = \<lparr>http_status = 200, body = JObj [(''success'', JBool True)]\<rparr>"

text \<open>
  The guarded update of the plan artifact in the start handler: status
  \<^verbatim>\<open>in_progress\<close>, and \<^verbatim>\<open>parent_branch\<close> only if not already set. Every throw inside the
  \<^verbatim>\<open>try\<close> leaves the world as it is.
\<close>

definition persistInProgress :: "'r env \<Rightarrow> string \<Rightarrow> string \<Rightarrow> string \<Rightarrow> 'r world \<Rightarrow> 'r world" where
  "persistInProgress E now planPath parentBranch w =
     (if existsSync (files w) planPath then
        (case readFileSync (files w) planPath of
           None \<Rightarrow> w
         | Some t \<Rightarrow>
             (case JSON_parse E t of
                None \<Rightarrow> w
              | Some plan \<Rightarrow>
                  (case js_set plan ''status'' (JStr ''in_progress'') of
                     None \<Rightarrow> w
                   | Some p1 \<Rightarrow>
                       (case js_set p1 ''planStatus'' (JStr ''in_progress'') of
                          None \<Rightarrow> w
                        | Some p2 \<Rightarrow>
                            (case js_set p2 ''updated_at'' (JStr now) of
                               None \<Rightarrow> w
                             | Some p3 \<Rightarrow>
                                 (case (if \<not> truthy (js_get p3 ''parent_branch'') \<and> parentBranch \<noteq> []
                                        then js_set p3 ''parent_branch'' (JStr parentBranch)
                                        else Some p3) of
                                    None \<Rightarrow> w
                                  | Some p4 \<Rightarrow>
                                      (case writeFileSync (files w) planPath (JSON_stringify E p4) of
                                         None \<Rightarrow> w
                                       | Some f' \<Rightarrow> emit (WriteFile planPath) (w\<lparr>files := f'\<rparr>))))))))
      else w)"

text \<open>\<^verbatim>\<open>if (runningTasks.has(taskId)) { runningTasks.get(taskId)?.process.kill(); runningTasks.delete(taskId); }\<close>\<close>

definition killExisting :: "string \<Rightarrow> 'r world \<Rightarrow> 'r world" where
  "killExisting taskId w =
     (case runningTasks w taskId of
        Some old \<Rightarrow> (emit (Kill (rt_process old)) w)\<lparr>runningTasks := (runningTasks w)(taskId := None)\<rparr>
      | None \<Rightarrow> w)"

definition startArgs :: "string \<Rightarrow> start_req \<Rightarrow> string list" where
  "startArgs autoBuildPath rq =
     [path_join [autoBuildPath, ''run.py''], ''--spec'', sr_taskId rq, ''--auto-continue'']
       @ (if sr_force rq then [''--force''] else [])"

text \<open>
  \<^verbatim>\<open>spawn\<close> returns a child also when the launch fails (the child then emits
  \<^verbatim>\<open>error\<close>); the handle is registered in both cases.
\<close>

definition spawnTask :: "string \<Rightarrow> start_req \<Rightarrow> string \<Rightarrow> 'r world \<Rightarrow> 'r world" where
  "spawnTask autoBuildPath rq projectPath w =
     (let pythonPath = path_join [autoBuildPath, ''.venv'', ''bin'', ''python''];
          child = next_id w;
          w2 = (emit (Spawn child pythonPath (startArgs autoBuildPath rq) projectPath) w)
                 \<lparr>next_id := Suc child\<rparr>
      in w2\<lparr>runningTasks := (runningTasks w2)(sr_taskId rq \<mapsto>
              \<lparr>rt_taskId = sr_taskId rq, rt_process = child, rt_projectPath = projectPath\<rparr>)\<rparr>)"

definition detectParentBranch :: "'r env \<Rightarrow> string \<Rightarrow> 'r world \<Rightarrow> string \<times> 'r world" where
  "detectParentBranch E projectPath w =
     (case exec E RevParseAbbrevHead projectPath w of
        (Inr out, w') \<Rightarrow> (js_trim out, w')
      | (Inl err, w') \<Rightarrow> ([], w'))"

definition start :: "'r env \<Rightarrow> string \<Rightarrow> start_req \<Rightarrow> 'r world \<Rightarrow> response \<times> 'r world" where
  "start E now rq w =
     (case find (\<lambda>p. p_id p = sr_projectId rq) (projects w) of
        None \<Rightarrow> (json_error 404 ''Project not found'', w)
      | Some project \<Rightarrow>
          (case getAutoBuildPath E (files w) of
             None \<Rightarrow> (json_error 500 ''auto-claude not found'', w)
           | Some autoBuildPath \<Rightarrow>
               (let taskId = sr_taskId rq;
                    w1 = killExisting taskId w;
                    w3 = spawnTask autoBuildPath rq (p_path project) w1
                in (case detectParentBranch E (p_path project) w3 of
                      (parentBranch, w4) \<Rightarrow>
                        (let w5 = persistInProgress E now (planPathOf (p_path project) taskId) parentBranch w4;
                             w6 = broadcast ''task:statusChange''
                                    (JObj [(''taskId'', JStr taskId), (''status'', JStr ''in_progress'')]) w5;
                             w7 = startLogWatching E taskId (p_path project) w6
                         in (json_success, w7))))))"

text \<open>
  The \<^verbatim>\<open>exit\<close> listener that the start handler attaches to the child; \<open>taskId\<close> and
  \<open>projectPath\<close> are the variables it closes over, \<open>code\<close> is the exit code
  (\<open>None\<close>: \<^verbatim>\<open>null\<close>, the child was ended by a signal).
\<close>

definition persistFinalStatus :: "'r env \<Rightarrow> string \<Rightarrow> string \<Rightarrow> string \<Rightarrow> 'r world \<Rightarrow> 'r world" where
  "persistFinalStatus E now exitPlanPath finalStatus w =
     (if existsSync (files w) exitPlanPath then
        (case readFileSync (files w) exitPlanPath of
           None \<Rightarrow> w
         | Some t \<Rightarrow>
             (case JSON_parse E t of
                None \<Rightarrow> w
              | Some exitPlan \<Rightarrow>
                  (case js_set exitPlan ''status'' (JStr finalStatus) of
                     None \<Rightarrow> w
                   | Some p1 \<Rightarrow>
                       (case js_set p1 ''planStatus''
                               (JStr (if finalStatus = ''human_review'' then ''review'' else ''pending'')) of
                          None \<Rightarrow> w
                        | Some p2 \<Rightarrow>
                            (case js_set p2 ''updated_at'' (JStr now) of
                               None \<Rightarrow> w
                             | Some p3 \<Rightarrow>
                                 (case writeFileSync (files w) exitPlanPath (JSON_stringify E p3) of
                                    None \<Rightarrow> w
                                  | Some f' \<Rightarrow> emit (WriteFile exitPlanPath) (w\<lparr>files := f'\<rparr>)))))))
      else w)"

definition exitCodeJson :: "int option \<Rightarrow> json" where
  "exitCodeJson code = (case code of None \<Rightarrow> JNull | Some c \<Rightarrow> JNum c)"

definition finalStatusOf :: "int option \<Rightarrow> string" where
  "finalStatusOf code = (if code = Some 0 then ''human_review'' else ''backlog'')"

definition child_on_exit :: "'r env \<Rightarrow> string \<Rightarrow> string \<Rightarrow> string \<Rightarrow> int option \<Rightarrow> 'r world \<Rightarrow> 'r world" where
  "child_on_exit E now taskId projectPath code w =
     (let w1 = w\<lparr>runningTasks := (runningTasks w)(taskId := None)\<rparr>;
          w2 = stopLogWatching taskId w1;
          w3 = broadcast ''task:exit'' (JObj [(''taskId'', JStr taskId), (''code'', exitCodeJson code)]) w2;
          finalStatus = finalStatusOf code;
          w4 = persistFinalStatus E now (planPathOf projectPath taskId) finalStatus w3
      in broadcast ''task:statusChange''
           (JObj [(''taskId'', JStr taskId), (''status'', JStr finalStatus)]) w4)"


definition stop :: "string \<Rightarrow> 'r world \<Rightarrow> response \<times> 'r world" where
  "stop taskId w =
     (case runningTasks w taskId of
        Some task \<Rightarrow>
          (let w1 = (emit (Kill (rt_process task)) w)\<lparr>runningTasks := (runningTasks w)(taskId := None)\<rparr>;
               w2 = stopLogWatching taskId w1
           in (json_success,
               broadcast ''task:statusChange''
                 (JObj [(''taskId'', JStr taskId), (''status'', JStr ''stopped'')]) w2))
      | None \<Rightarrow> (json_success, w))"

section \<open>The interval callback of a watcher\<close>




section \<open>Listing the tasks of a project\<close>














section \<open>Reading the structured logs of a task\<close>










section \<open>Merging the worktree of a task\<close>

text \<open>
  Steps that throw return \<open>Inl\<close> with the message of the error, and the world as it is
  at the throw.
\<close>

definition planParentBranch :: "'r env \<Rightarrow> filesystem \<Rightarrow> string \<Rightarrow> json option" where
  "planParentBranch E f planPath =
     (if existsSync f planPath then
        (case readFileSync f planPath of
           None \<Rightarrow> None
         | Some t \<Rightarrow>
             (case JSON_parse E t of
                None \<Rightarrow> None
              | Some plan \<Rightarrow>
                  (case js_member plan ''parent_branch'' of
                     None \<Rightarrow> None
                   | Some pb \<Rightarrow> if truthy pb then pb else None)))
      else None)"

definition resolveBaseBranch :: "'r env \<Rightarrow> string \<Rightarrow> string \<Rightarrow> json option \<Rightarrow> 'r world
                                   \<Rightarrow> json \<times> 'r world" where
  "resolveBaseBranch E projectPath taskId targetBranch w =
     (case (if truthy targetBranch then targetBranch else None) of
        Some b \<Rightarrow> (b, w)
      | None \<Rightarrow>
          (case planParentBranch E (files w) (planPathOf projectPath taskId) of
             Some b \<Rightarrow> (b, w)
           | None \<Rightarrow>
               (case exec E RevParseVerifyMain projectPath w of
                  (Inr out, w') \<Rightarrow> (JStr ''main'', w')
                | (Inl err, w') \<Rightarrow> (JStr ''master'', w'))))"

definition checkoutBase :: "'r env \<Rightarrow> string \<Rightarrow> json \<Rightarrow> 'r world \<Rightarrow> (string + unit) \<times> 'r world" where
  "checkoutBase E projectPath baseBranch w =
     (case exec E RevParseAbbrevHead projectPath w of
        (Inl err, w1) \<Rightarrow> (Inl err, w1)
      | (Inr out, w1) \<Rightarrow>
          (if JStr (js_trim out) \<noteq> baseBranch
           then (case exec E (Checkout baseBranch) projectPath w1 of
                   (Inl err, w2) \<Rightarrow> (Inl err, w2)
                 | (Inr out', w2) \<Rightarrow> (Inr (), w2))
           else (Inr (), w1)))"

definition checkAlreadyMerged :: "'r env \<Rightarrow> string \<Rightarrow> json \<Rightarrow> string \<Rightarrow> 'r world \<Rightarrow> bool \<times> 'r world" where
  "checkAlreadyMerged E projectPath baseBranch branchName w =
     (case exec E (LogOneline baseBranch branchName) projectPath w of
        (Inr unmergedCommits, w1) \<Rightarrow> (js_trim unmergedCommits = [], w1)
      | (Inl err, w1) \<Rightarrow> (False, w1))"

text \<open>
  The guarded update of the plan artifact when the branch is found already merged:
  \<^verbatim>\<open>plan.merged_at = plan.merged_at || new Date().toISOString()\<close>.
\<close>

definition persistAlreadyMerged :: "'r env \<Rightarrow> string \<Rightarrow> string \<Rightarrow> 'r world \<Rightarrow> 'r world" where
  "persistAlreadyMerged E now planPath w =
     (if existsSync (files w) planPath then
        (case readFileSync (files w) planPath of
           None \<Rightarrow> w
         | Some t \<Rightarrow>
             (case JSON_parse E t of
                None \<Rightarrow> w
              | Some plan \<Rightarrow>
                  (case js_set plan ''status'' (JStr ''done'') of
                     None \<Rightarrow> w
                   | Some p1 \<Rightarrow>
                       (case js_set p1 ''merged_at'' (js_or (js_get p1 ''merged_at'') (JStr now)) of
                          None \<Rightarrow> w
                        | Some p2 \<Rightarrow>
                            (case writeFileSync (files w) planPath (JSON_stringify E p2) of
                               None \<Rightarrow> w
                             | Some f' \<Rightarrow> emit (WriteFile planPath) (w\<lparr>files := f'\<rparr>))))))
      else w)"

text \<open>The update after a merge: \<^verbatim>\<open>plan.merged_at = new Date().toISOString()\<close>.\<close>

definition persistMerged :: "'r env \<Rightarrow> string \<Rightarrow> string \<Rightarrow> 'r world \<Rightarrow> 'r world" where
  "persistMerged E now planPath w =
     (if existsSync (files w) planPath then
        (case readFileSync (files w) planPath of
           None \<Rightarrow> w
         | Some t \<Rightarrow>
             (case JSON_parse E t of
                None \<Rightarrow> w
              | Some plan \<Rightarrow>
                  (case js_set plan ''status'' (JStr ''done'') of
                     None \<Rightarrow> w
                   | Some p1 \<Rightarrow>
                       (case js_set p1 ''merged_at'' (JStr now) of
                          None \<Rightarrow> w
                        | Some p2 \<Rightarrow>
                            (case writeFileSync (files w) planPath (JSON_stringify E p2) of
                               None \<Rightarrow> w
                             | Some f' \<Rightarrow> emit (WriteFile planPath) (w\<lparr>files := f'\<rparr>))))))
      else w)"

text \<open>Stashing uncommitted changes; the result is \<^verbatim>\<open>hasStash\<close>.\<close>

definition stashChanges :: "'r env \<Rightarrow> string \<Rightarrow> 'r world \<Rightarrow> bool \<times> 'r world" where
  "stashChanges E projectPath w =
     (case exec E StatusExclWorktrees projectPath w of
        (Inl err, w1) \<Rightarrow> (False, w1)
      | (Inr status, w1) \<Rightarrow>
          (if length (js_trim status) > 0
           then (case exec E StashPush projectPath w1 of
                   (Inl err, w2) \<Rightarrow> (False, w2)
                 | (Inr out, w2) \<Rightarrow> (True, w2))
           else (False, w1)))"

definition ensureGitignore :: "string \<Rightarrow> 'r world \<Rightarrow> 'r world" where
  "ensureGitignore projectPath w =
     (let gitignorePath = path_join [projectPath, ''.gitignore'']
      in (case (if existsSync (files w) gitignorePath
                then readFileSync (files w) gitignorePath else Some []) of
            None \<Rightarrow> w
          | Some gitignore \<Rightarrow>
              (if \<not> js_includes gitignore ''.worktrees''
               then (case writeFileSync (files w) gitignorePath
                            (gitignore @ [CHR 0x0A] @ ''.worktrees/'' @ [CHR 0x0A]) of
                       None \<Rightarrow> w
                     | Some f' \<Rightarrow> emit (WriteFile gitignorePath) (w\<lparr>files := f'\<rparr>))
               else w)))"

definition cleanFile :: "string \<Rightarrow> string \<Rightarrow> 'r world \<Rightarrow> 'r world" where
  "cleanFile projectPath file w =
     (let filePath = path_join [projectPath, file]
      in if existsSync (files w) filePath
         then (case unlinkSync (files w) filePath of None \<Rightarrow> w | Some f' \<Rightarrow> w\<lparr>files := f'\<rparr>)
         else w)"

definition filesToClean :: "string list" where
  "filesToClean = [''.claude_settings.json'', ''.auto-claude-status'']"

definition removeUntrackedSpecDir :: "'r env \<Rightarrow> string \<Rightarrow> string \<Rightarrow> 'r world \<Rightarrow> 'r world" where
  "removeUntrackedSpecDir E projectPath taskId w =
     (let localSpecDir = specDirOf projectPath taskId
      in (case exec E (LsFilesOrUntracked localSpecDir) projectPath w of
            (Inl err, w1) \<Rightarrow> w1
          | (Inr isTracked, w1) \<Rightarrow>
              (if js_trim isTracked = ''untracked'' \<and> existsSync (files w1) localSpecDir
               then w1\<lparr>files := rmSync (files w1) localSpecDir\<rparr>
               else w1)))"

subsection \<open>Conflicts\<close>

text \<open>\<^verbatim>\<open>/^(UU|DU|UD|AA) /.test(line)\<close>\<close>

definition isConflictLine :: "string \<Rightarrow> bool" where
  "isConflictLine line =
     (starts_with line ''UU '' \<or> starts_with line ''DU '' \<or> starts_with line ''UD ''
      \<or> starts_with line ''AA '')"

definition autoResolvableFiles :: "string list" where
  "autoResolvableFiles = [''.auto-claude-status'', ''.claude_settings.json'']"

definition resolveLine :: "'r env \<Rightarrow> string \<Rightarrow> string \<Rightarrow> 'r world \<Rightarrow> 'r world" where
  "resolveLine E projectPath line w =
     (let conflictType = take 2 line;
          file = js_trim (drop 3 line)
      in if conflictType = ''DU'' then snd (exec E (Rm file) projectPath w)
         else if conflictType = ''UD'' then snd (exec E (Rm file) projectPath w)
         else (case exec E (CheckoutTheirs file) projectPath w of
                 (Inl err, w1) \<Rightarrow> w1
               | (Inr out, w1) \<Rightarrow> snd (exec E (Add file) projectPath w1)))"

definition resolveSubmodule :: "'r env \<Rightarrow> string \<Rightarrow> string \<Rightarrow> 'r world \<Rightarrow> 'r world" where
  "resolveSubmodule E projectPath submodule w =
     (case exec E (CheckoutHead submodule) projectPath w of
        (Inl err, w1) \<Rightarrow> w1
      | (Inr out, w1) \<Rightarrow> snd (exec E (Add submodule) projectPath w1))"

definition resolveSubmodules :: "'r env \<Rightarrow> string \<Rightarrow> 'r world \<Rightarrow> 'r world" where
  "resolveSubmodules E projectPath w =
     (case exec E SubmodulePaths projectPath w of
        (Inr out, w1) \<Rightarrow>
          fold (resolveSubmodule E projectPath)
               (filter (\<lambda>l. l \<noteq> []) (split_on (CHR 0x0A) (js_trim out))) w1
      | (Inl err, w1) \<Rightarrow> snd (exec E AddAll projectPath w1))"

text \<open>
  The \<^verbatim>\<open>catch\<close> of the merge command; \<open>mergeErrorMessage\<close> is the message of the error
  that \<^verbatim>\<open>git merge\<close> threw, which is thrown again when the conflicts are not resolved.
\<close>

definition handleMergeError :: "'r env \<Rightarrow> string \<Rightarrow> string \<Rightarrow> string \<Rightarrow> 'r world
                                  \<Rightarrow> (string + unit) \<times> 'r world" where
  "handleMergeError E projectPath branchName mergeErrorMessage w =
     (case exec E StatusPorcelain projectPath w of
        (Inl err, w1) \<Rightarrow> (Inl err, w1)
      | (Inr status, w1) \<Rightarrow>
          (let conflictLines = filter isConflictLine (split_on (CHR 0x0A) status);
               conflictFiles = map (\<lambda>line. js_trim (drop 3 line)) conflictLines;
               hasSubmoduleConflict = (js_includes mergeErrorMessage ''submodule''
                                       \<or> js_includes mergeErrorMessage ''CONFLICT (submodule)'');
               canAutoResolve = (length conflictFiles > 0
                                 \<and> list_all (\<lambda>f. f \<in> set autoResolvableFiles) conflictFiles)
           in if canAutoResolve \<or> hasSubmoduleConflict then
                (let w2 = fold (resolveLine E projectPath) conflictLines w1;
                     w3 = (if hasSubmoduleConflict then resolveSubmodules E projectPath w2 else w2)
                 in (Inr (), snd (exec E (Commit (''Merge '' @ branchName)) projectPath w3)))
              else if length conflictFiles = 0 then
                (case exec E MergeContinue projectPath w1 of
                   (Inl err, w2) \<Rightarrow> (Inl mergeErrorMessage, w2)
                 | (Inr out, w2) \<Rightarrow> (Inr (), w2))
              else (Inl mergeErrorMessage, w1)))"

definition performMerge :: "'r env \<Rightarrow> string \<Rightarrow> string \<Rightarrow> 'r world \<Rightarrow> (string + unit) \<times> 'r world" where
  "performMerge E projectPath branchName w =
     (case exec E (Merge branchName) projectPath w of
        (Inr out, w1) \<Rightarrow> (Inr (), w1)
      | (Inl mergeErrorMessage, w1) \<Rightarrow> handleMergeError E projectPath branchName mergeErrorMessage w1)"

text \<open>Popping the stash after the merge; the stash is dropped when the pop fails.\<close>

definition popStash :: "'r env \<Rightarrow> string \<Rightarrow> bool \<Rightarrow> 'r world \<Rightarrow> 'r world" where
  "popStash E projectPath hasStash w =
     (if hasStash
      then (case exec E StashPop projectPath w of
              (Inl err, w1) \<Rightarrow> snd (exec E StashDrop projectPath w1)
            | (Inr out, w1) \<Rightarrow> w1)
      else w)"

definition merge_reply :: "string \<Rightarrow> response" where
  "merge_reply msg =
     \<lparr>http_status = 200,
      body = JObj [(''success'', JBool True),
                   (''data'', JObj [(''success'', JBool True), (''message'', JStr msg)])]\<rparr>"

text \<open>
  The \<^verbatim>\<open>try\<close> up to the merge command. The result is \<open>Inl\<close> when the handler is
  done (something was thrown, or the branch was found already merged and the reply is
  given), and \<open>Inr hasStash\<close> when the merge is to be performed.
\<close>

definition mergeSetup :: "'r env \<Rightarrow> string \<Rightarrow> string \<Rightarrow> string \<Rightarrow> json option \<Rightarrow> 'r world
                            \<Rightarrow> ((string + response) + bool) \<times> 'r world" where
  "mergeSetup E now projectPath taskId targetBranch w =
     (let branchName = ''auto-claude/'' @ taskId;
          planPath = planPathOf projectPath taskId
      in (case resolveBaseBranch E projectPath taskId targetBranch w of
            (baseBranch, w1) \<Rightarrow>
              (case checkoutBase E projectPath baseBranch w1 of
                 (Inl err, w2) \<Rightarrow> (Inl (Inl err), w2)
               | (Inr u, w2) \<Rightarrow>
                   (case checkAlreadyMerged E projectPath baseBranch branchName w2 of
                      (True, w3) \<Rightarrow>
                        (Inl (Inr (merge_reply ''Branch already merged'')),
                         persistAlreadyMerged E now planPath w3)
                    | (False, w3) \<Rightarrow>
                        (let w4 = snd (exec E MergeAbort projectPath w3)
                         in (case stashChanges E projectPath w4 of
                               (hasStash, w5) \<Rightarrow>
                                 (let w6 = ensureGitignore projectPath w5;
                                      w7 = fold (cleanFile projectPath) filesToClean w6
                                  in (Inr hasStash,
                                      removeUntrackedSpecDir E projectPath taskId w7))))))))"

text \<open>
  The body of the \<^verbatim>\<open>try\<close>: what is thrown (\<open>Inl\<close>) or answered (\<open>Inr\<close>), the value of
  \<^verbatim>\<open>hasStash\<close>, and the world.
\<close>

definition mergeTry :: "'r env \<Rightarrow> string \<Rightarrow> string \<Rightarrow> string \<Rightarrow> json option \<Rightarrow> 'r world
                          \<Rightarrow> (string + response) \<times> bool \<times> 'r world" where
  "mergeTry E now projectPath taskId targetBranch w =
     (case mergeSetup E now projectPath taskId targetBranch w of
        (Inl done, w') \<Rightarrow> (done, False, w')
      | (Inr hasStash, w8) \<Rightarrow>
          (case performMerge E projectPath (''auto-claude/'' @ taskId) w8 of
             (Inl err, w9) \<Rightarrow> (Inl err, hasStash, w9)
           | (Inr u, w9) \<Rightarrow>
               (Inr (merge_reply ''Merge completed successfully''), hasStash,
                persistMerged E now (planPathOf projectPath taskId)
                  (popStash E projectPath hasStash w9))))"

record merge_req =
  mr_taskId :: string
  mr_projectId :: string
  mr_targetBranch :: "json option"

text \<open>
  The handler, with the \<^verbatim>\<open>catch\<close> of the whole \<^verbatim>\<open>try\<close>: it pops the stash if one
  was made, ignoring a failure of the pop, and answers with the message of the error.
\<close>

definition merge :: "'r env \<Rightarrow> string \<Rightarrow> merge_req \<Rightarrow> 'r world \<Rightarrow> response \<times> 'r world" where
  "merge E now rq w =
     (case find (\<lambda>p. p_id p = mr_projectId rq) (projects w) of
        None \<Rightarrow> (json_error 404 ''Project not found'', w)
      | Some project \<Rightarrow>
          (case mergeTry E now (p_path project) (mr_taskId rq) (mr_targetBranch rq) w of
             (Inr reply, hasStash, w1) \<Rightarrow> (reply, w1)
           | (Inl err, hasStash, w1) \<Rightarrow>
               (\<lparr>http_status = 200, body = JObj [(''success'', JBool False), (''error'', JStr err)]\<rparr>,
                if hasStash then snd (exec E StashPop (p_path project) w1) else w1)))"

section \<open>Vocabulary of the statements\<close>

subsection \<open>Events of the server\<close>

text \<open>
  What happens to the registry of running tasks over time: a start request (with the time
  at which it is handled), a stop request, and the run of the \<^verbatim>\<open>exit\<close> listener of a
  child, with the task and the project path that its start closed over and the exit code.
  The listener of any child may run at any point after its start, in particular after a
  later start of the same task has killed that child; a list of events is arbitrary, so
  every schedule of the real server is among them.
\<close>

datatype server_event =
    StartReq string start_req
  | StopReq string
  | ChildExit string string string "int option"

fun serve :: "'r env \<Rightarrow> server_event \<Rightarrow> 'r world \<Rightarrow> 'r world" where
  "serve E (StartReq now rq) w = snd (start E now rq w)"
| "serve E (StopReq taskId) w = snd (stop taskId w)"
| "serve E (ChildExit now taskId projectPath code) w = child_on_exit E now taskId projectPath code w"

definition run :: "'r env \<Rightarrow> server_event list \<Rightarrow> 'r world \<Rightarrow> 'r world" where
  "run E evs w = fold (serve E) evs w"

text \<open>
  The children spawned for a task, in the order of their creation, read off the effect
  log (the task is the third argument of the worker).
\<close>

fun spawnFor :: "string \<Rightarrow> effect \<Rightarrow> nat option" where
  "spawnFor t (Spawn child cmd args cwd) = (if take 1 (drop 2 args) = [t] then Some child else None)"
| "spawnFor t e = None"

definition spawnedFor :: "string \<Rightarrow> effect list \<Rightarrow> nat list" where
  "spawnedFor t es = List.map_filter (spawnFor t) es"

fun isSpawn :: "effect \<Rightarrow> bool" where
  "isSpawn (Spawn child cmd args cwd) = True"
| "isSpawn e = False"

fun isKill :: "effect \<Rightarrow> bool" where
  "isKill (Kill child) = True"
| "isKill e = False"



subsection \<open>Plan artifacts\<close>

text \<open>
  What \<^verbatim>\<open>JSON.parse\<close> makes of the file at a path; \<open>None\<close> when there is no file at
  the path (nothing, or a directory) or the text does not parse.
\<close>

definition planJson :: "'r env \<Rightarrow> filesystem \<Rightarrow> string \<Rightarrow> json option" where
  "planJson E f p = (case f p of Some (File text) \<Rightarrow> JSON_parse E text | _ \<Rightarrow> None)"

text \<open>The path of the plan artifact of a task in a project.\<close>

definition artifact :: "string \<Rightarrow> string \<Rightarrow> string" where
  "artifact projectPath taskId =
     projectPath @ ''/.auto-claude/specs/'' @ taskId @ ''/implementation_plan.json''"

text \<open>A document that a guarded update can be assigned to: an object or an array.\<close>

fun isDocument :: "json option \<Rightarrow> bool" where
  "isDocument (Some (JObj kvs)) = True"
| "isDocument (Some (JArr xs)) = True"
| "isDocument v = False"

text \<open>The world after the file at a path was written with the printed document.\<close>

definition written :: "'r env \<Rightarrow> string \<Rightarrow> json \<Rightarrow> 'r world \<Rightarrow> 'r world" where
  "written E p doc w =
     w\<lparr>files := (files w)(p \<mapsto> File (JSON_stringify E doc)), effects := effects w @ [WriteFile p]\<rparr>"

section \<open>A test environment\<close>

text \<open>
  A project \<^verbatim>\<open>P1\<close> at \<^verbatim>\<open>/proj\<close>, the worker installed under
  \<^verbatim>\<open>/opt/auto-claude\<close> (without a Python executable), a parser and a printer given by
  a table of documents, and a repository whose answer depends on the command only and
  that leaves the files alone.
\<close>

definition demoProject :: Project where
  "demoProject = \<lparr>p_id = ''P1'', p_path = ''/proj''\<rparr>"

definition replyGit :: "(gitcmd \<Rightarrow> string + string) \<Rightarrow> gitcmd \<Rightarrow> string \<Rightarrow> unit \<times> filesystem
                          \<Rightarrow> (string + string) \<times> unit \<times> filesystem" where
  "replyGit reply c cwd s = (reply c, s)"

definition tableEnv :: "(string \<times> json) list \<Rightarrow> (json \<times> string) list \<Rightarrow> (gitcmd \<Rightarrow> string + string)
                          \<Rightarrow> string list \<Rightarrow> unit env" where
  "tableEnv parses prints reply dirs =
     \<lparr>JSON_parse = map_of parses,
      JSON_stringify = (\<lambda>j. case map_of prints j of Some text \<Rightarrow> text | None \<Rightarrow> []),
      execSync = replyGit reply,
      possiblePaths = [''/opt/auto-claude''],
      subdirs = (\<lambda>f d. dirs)\<rparr>"

definition installFiles :: "(string \<times> node) list" where
  "installFiles = [(''/opt/auto-claude'', Dir), (''/opt/auto-claude/run.py'', File [])]"

definition demoWorld :: "(string \<times> node) list \<Rightarrow> unit world" where
  "demoWorld fl =
     \<lparr>files = map_of fl, repo = (), projects = [demoProject], runningTasks = Map.empty,
      logWatchers = Map.empty, effects = [], next_id = 0\<rparr>"

definition onMain :: "gitcmd \<Rightarrow> string + string" where
  "onMain c = Inr ''main''"


definition t1PlanPath :: string where
  "t1PlanPath = ''/proj/.auto-claude/specs/T1/implementation_plan.json''"

definition nl :: string where
  "nl = [CHR 0x0A]"

text \<open>
  Child 0 runs task \<^verbatim>\<open>T1\<close>, a watcher with timer 1 is registered, and the plan
  artifact holds the given text.
\<close>

definition runningWorld :: "string \<Rightarrow> unit world" where
  "runningWorld planText =
     \<lparr>files = map_of ((t1PlanPath, File planText) # installFiles), repo = (), projects = [demoProject],
      runningTasks = [''T1'' \<mapsto> \<lparr>rt_taskId = ''T1'', rt_process = 0, rt_projectPath = ''/proj''\<rparr>],
      logWatchers = [''T1'' \<mapsto> \<lparr>lw_specId = ''T1'', lw_projectPath = ''/proj'', lastContent = [],
                                lastWorktreeContent = [], lastPlanStatus = JStr ''in_progress'', interval = 1\<rparr>],
      effects = [], next_id = 2\<rparr>"

text \<open>A plan artifact of a running task, and what the exit listener makes of it at exit code 0.\<close>

definition planRunning :: string where
  \<open>planRunning = ''{"status": "in_progress", "planStatus": "in_progress"}''\<close>

definition planRunningDoc :: json where
  "planRunningDoc = JObj [(''status'', JStr ''in_progress''), (''planStatus'', JStr ''in_progress'')]"

definition planReviewDoc :: json where
  "planReviewDoc = JObj [(''status'', JStr ''human_review''), (''planStatus'', JStr ''review''),
                         (''updated_at'', JStr ''2025-01-01T00:10:00.000Z'')]"

definition planReview :: string where
  \<open>planReview = ''{'' @ nl @ ''  "status": "human_review",'' @ nl @ ''  "planStatus": "review",'' @ nl
                  @ ''  "updated_at": "2025-01-01T00:10:00.000Z"'' @ nl @ ''}''\<close>

definition planEnv :: "unit env" where
  "planEnv = tableEnv [(planRunning, planRunningDoc)] [(planReviewDoc, planReview)] onMain []"

text \<open>A plan artifact that was cut off in the middle of a write.\<close>

definition planTruncated :: string where
  \<open>planTruncated = ''{"status": "in_progress", "planSta''\<close>


text \<open>
  The parent branch that a plan artifact records: the value of \<^verbatim>\<open>parent_branch\<close> of
  an artifact that parses to an object, if that value is truthy.
\<close>

fun recordedParent :: "json option \<Rightarrow> json option" where
  "recordedParent (Some (JObj kvs)) =
     (case map_of kvs ''parent_branch'' of
        Some pb \<Rightarrow> if truthy (Some pb) then Some pb else None
      | None \<Rightarrow> None)"
| "recordedParent doc = None"

text \<open>A plan artifact that records a parent branch.\<close>

definition planWithParent :: string where
  \<open>planWithParent = ''{"status": "human_review", "parent_branch": "develop"}''\<close>

definition planWithParentDoc :: json where
  "planWithParentDoc = JObj [(''status'', JStr ''human_review''), (''parent_branch'', JStr ''develop'')]"

text \<open>A repository on branch \<^verbatim>\<open>release\<close> that has a branch \<^verbatim>\<open>main\<close>.\<close>

fun onRelease :: "gitcmd \<Rightarrow> string + string" where
  "onRelease RevParseAbbrevHead = Inr ''release''"
| "onRelease RevParseVerifyMain = Inr ''4f2a9c1''"
| "onRelease c = Inr []"

definition releaseEnv :: "unit env" where
  "releaseEnv = tableEnv [(planWithParent, planWithParentDoc)] [] onRelease []"

subsection \<open>The status of a listed task\<close>













subsection \<open>Structured logs\<close>












section \<open>Running git commands\<close>

lemma exec_props:
  "effects (snd (exec E c cwd w)) = effects w @ [Exec c cwd]"
  "fst (exec E c cwd w) = fst (execSync E c cwd (repo w, files w))"
  "runningTasks (snd (exec E c cwd w)) = runningTasks w"
  "logWatchers (snd (exec E c cwd w)) = logWatchers w"
  "projects (snd (exec E c cwd w)) = projects w"
  "next_id (snd (exec E c cwd w)) = next_id w"
  "read_only c \<Longrightarrow> files (snd (exec E c cwd w)) = files w"
  "read_only c \<Longrightarrow> repo (snd (exec E c cwd w)) = repo w"
  by (simp_all add: exec_def emit_def split: prod.splits)

section \<open>The guarded updates of the plan artifact\<close>

lemma map_of_obj_set: "map_of (obj_set kvs k x) k' = (if k' = k then Some x else map_of kvs k')"
  by (induction kvs) auto

lemma obj_set_same: "map_of kvs k = Some x \<Longrightarrow> obj_set kvs k x = kvs"
  by (induction kvs) (auto split: if_splits)

text \<open>The three ways a guarded update can go: on an object, on an array, or skipped.\<close>

lemma plan_cases:
  obtains (obj) src kvs where "f p = Some (File src)" "JSON_parse E src = Some (JObj kvs)"
        | (arr) src xs where "f p = Some (File src)" "JSON_parse E src = Some (JArr xs)"
        | (skip) "\<forall>kvs. planJson E f p \<noteq> Some (JObj kvs)" "\<forall>xs. planJson E f p \<noteq> Some (JArr xs)"
            "existsSync f p \<longrightarrow>
               (case readFileSync f p of None \<Rightarrow> True
                | Some src \<Rightarrow> (case JSON_parse E src of None \<Rightarrow> True
                                 | Some v \<Rightarrow> (\<forall>k x. js_set v k x = None) \<and> (v = JNull \<or> (\<forall>k. js_get v k = None))))"
proof (cases "f p")
  case None
  then show ?thesis using skip by (simp add: planJson_def existsSync_def)
next
  case (Some n)
  show ?thesis
  proof (cases n)
    case Dir
    then show ?thesis using skip Some by (simp add: planJson_def readFileSync_def)
  next
    case (File src)
    show ?thesis
    proof (cases "JSON_parse E src")
      case None
      then show ?thesis using skip Some File by (simp add: planJson_def readFileSync_def)
    next
      case (Some v)
      show ?thesis
      proof (cases v)
        case (JObj kvs)
        then show ?thesis using obj[of src kvs] \<open>f p = Some n\<close> File Some by simp
      next
        case (JArr xs)
        then show ?thesis using arr[of src xs] \<open>f p = Some n\<close> File Some by simp
      qed (use skip \<open>f p = Some n\<close> File Some in \<open>simp_all add: planJson_def readFileSync_def\<close>)
    qed
  qed
qed

lemma persistFinalStatus_eq:
  "persistFinalStatus E now p st w =
     (case planJson E (files w) p of
        Some (JObj kvs) \<Rightarrow>
          written E p (JObj (obj_set (obj_set (obj_set kvs ''status'' (JStr st))
                               ''planStatus'' (JStr (if st = ''human_review'' then ''review'' else ''pending'')))
                               ''updated_at'' (JStr now))) w
      | Some (JArr xs) \<Rightarrow> written E p (JArr xs) w
      | _ \<Rightarrow> w)"
proof (cases rule: plan_cases[where E=E and f="files w" and p=p])
  case (obj src kvs)
  then show ?thesis
    by (simp add: persistFinalStatus_def planJson_def existsSync_def readFileSync_def writeFileSync_def
          written_def emit_def)
next
  case (arr src xs)
  then show ?thesis
    by (simp add: persistFinalStatus_def planJson_def existsSync_def readFileSync_def writeFileSync_def
          written_def emit_def)
next
  case skip
  have "persistFinalStatus E now p st w = w"
    using skip(3) by (auto simp: persistFinalStatus_def split: option.splits)
  moreover have "(case planJson E (files w) p of
        Some (JObj kvs) \<Rightarrow>
          written E p (JObj (obj_set (obj_set (obj_set kvs ''status'' (JStr st))
                               ''planStatus'' (JStr (if st = ''human_review'' then ''review'' else ''pending'')))
                               ''updated_at'' (JStr now))) w
      | Some (JArr xs) \<Rightarrow> written E p (JArr xs) w
      | _ \<Rightarrow> w) = w"
    using skip(1,2) by (cases "planJson E (files w) p") (auto split: json.splits)
  ultimately show ?thesis by simp
qed


lemma persistAlreadyMerged_eq:
  "persistAlreadyMerged E now p w =
     (case planJson E (files w) p of
        Some (JObj kvs) \<Rightarrow>
          written E p
            (JObj (obj_set (obj_set kvs ''status'' (JStr ''done'')) ''merged_at''
                     (js_or (map_of (obj_set kvs ''status'' (JStr ''done'')) ''merged_at'') (JStr now)))) w
      | Some (JArr xs) \<Rightarrow> written E p (JArr xs) w
      | _ \<Rightarrow> w)"
proof (cases rule: plan_cases[where E=E and f="files w" and p=p])
  case (obj src kvs)
  then show ?thesis
    by (simp add: persistAlreadyMerged_def planJson_def existsSync_def readFileSync_def writeFileSync_def
          written_def emit_def)
next
  case (arr src xs)
  then show ?thesis
    by (simp add: persistAlreadyMerged_def planJson_def existsSync_def readFileSync_def writeFileSync_def
          written_def emit_def)
next
  case skip
  have "persistAlreadyMerged E now p w = w"
    using skip(3) by (auto simp: persistAlreadyMerged_def split: option.splits)
  then show ?thesis
    using skip(1,2) by (cases "planJson E (files w) p") (auto split: json.splits)
qed

lemma persistMerged_eq:
  "persistMerged E now p w =
     (case planJson E (files w) p of
        Some (JObj kvs) \<Rightarrow>
          written E p (JObj (obj_set (obj_set kvs ''status'' (JStr ''done'')) ''merged_at'' (JStr now))) w
      | Some (JArr xs) \<Rightarrow> written E p (JArr xs) w
      | _ \<Rightarrow> w)"
proof (cases rule: plan_cases[where E=E and f="files w" and p=p])
  case (obj src kvs)
  then show ?thesis
    by (simp add: persistMerged_def planJson_def existsSync_def readFileSync_def writeFileSync_def
          written_def emit_def)
next
  case (arr src xs)
  then show ?thesis
    by (simp add: persistMerged_def planJson_def existsSync_def readFileSync_def writeFileSync_def
          written_def emit_def)
next
  case skip
  have "persistMerged E now p w = w"
    using skip(3) by (auto simp: persistMerged_def split: option.splits)
  then show ?thesis
    using skip(1,2) by (cases "planJson E (files w) p") (auto split: json.splits)
qed


lemma planPathOf_eq: "planPathOf P t = P @ ''/.auto-claude/specs/'' @ t @ ''/implementation_plan.json''"
  by (simp add: planPathOf_def)

section \<open>Watchers\<close>

lemma stopLogWatching_props:
  "runningTasks (stopLogWatching t w) = runningTasks w"
  "projects (stopLogWatching t w) = projects w"
  "files (stopLogWatching t w) = files w"
  "repo (stopLogWatching t w) = repo w"
  "next_id (stopLogWatching t w) = next_id w"
  "logWatchers (stopLogWatching t w) = (logWatchers w)(t := None)"
  "effects (stopLogWatching t w) =
     effects w @ (case logWatchers w t of Some lw \<Rightarrow> [ClearInterval (interval lw)] | None \<Rightarrow> [])"
  by (auto simp: stopLogWatching_def emit_def split: option.splits)


section \<open>Starting a task\<close>

lemma written_props:
  "runningTasks (written E p doc w) = runningTasks w"
  "logWatchers (written E p doc w) = logWatchers w"
  "projects (written E p doc w) = projects w"
  "repo (written E p doc w) = repo w"
  "next_id (written E p doc w) = next_id w"
  "effects (written E p doc w) = effects w @ [WriteFile p]"
  "files (written E p doc w) = (files w)(p \<mapsto> File (JSON_stringify E doc))"
  by (simp_all add: written_def)


lemma persistFinalStatus_props:
  "runningTasks (persistFinalStatus E now p st w) = runningTasks w"
  "logWatchers (persistFinalStatus E now p st w) = logWatchers w"
  "projects (persistFinalStatus E now p st w) = projects w"
  "repo (persistFinalStatus E now p st w) = repo w"
  "next_id (persistFinalStatus E now p st w) = next_id w"
  "effects (persistFinalStatus E now p st w) =
     effects w @ (if isDocument (planJson E (files w) p) then [WriteFile p] else [])"
  by (cases "planJson E (files w) p"; simp add: persistFinalStatus_eq written_props split: json.splits)+

lemma broadcast_props:
  "runningTasks (broadcast ev d w) = runningTasks w"
  "logWatchers (broadcast ev d w) = logWatchers w"
  "projects (broadcast ev d w) = projects w"
  "repo (broadcast ev d w) = repo w"
  "files (broadcast ev d w) = files w"
  "next_id (broadcast ev d w) = next_id w"
  "effects (broadcast ev d w) = effects w @ [Broadcast ev d]"
  by (simp_all add: broadcast_def emit_def)









section \<open>The exit of a child\<close>

lemma artifact_eq: "planPathOf P t = artifact P t"
  by (simp add: planPathOf_def artifact_def)

lemma t1_artifact: "artifact ''/proj'' ''T1'' = t1PlanPath"
  by (simp add: artifact_def t1PlanPath_def)

lemma child_on_exit_props:
  "runningTasks (child_on_exit E now t P code w) = (runningTasks w)(t := None)"
  "logWatchers (child_on_exit E now t P code w) = (logWatchers w)(t := None)"
  "projects (child_on_exit E now t P code w) = projects w"
  "next_id (child_on_exit E now t P code w) = next_id w"
  "effects (child_on_exit E now t P code w) =
     effects w
       @ (case logWatchers w t of Some lw \<Rightarrow> [ClearInterval (interval lw)] | None \<Rightarrow> [])
       @ [Broadcast ''task:exit''
            (JObj [(''taskId'', JStr t), (''code'', (case code of None \<Rightarrow> JNull | Some c \<Rightarrow> JNum c))])]
       @ (if isDocument (planJson E (files w) (artifact P t)) then [WriteFile (artifact P t)] else [])
       @ [Broadcast ''task:statusChange''
            (JObj [(''taskId'', JStr t),
                   (''status'', JStr (if code = Some 0 then ''human_review'' else ''backlog''))])]"
  by (simp_all add: child_on_exit_def Let_def broadcast_props persistFinalStatus_props
        stopLogWatching_props artifact_eq exitCodeJson_def finalStatusOf_def)

lemma child_on_exit_files:
  "files (child_on_exit E now t P code w) =
     (case planJson E (files w) (artifact P t) of
        Some (JObj kvs) \<Rightarrow>
          (files w)(artifact P t \<mapsto> File (JSON_stringify E
             (JObj (obj_set (obj_set (obj_set kvs
                ''status'' (JStr (if code = Some 0 then ''human_review'' else ''backlog'')))
                ''planStatus'' (JStr (if code = Some 0 then ''review'' else ''pending'')))
                ''updated_at'' (JStr now)))))
      | Some (JArr xs) \<Rightarrow> (files w)(artifact P t \<mapsto> File (JSON_stringify E (JArr xs)))
      | _ \<Rightarrow> files w)"
proof -
  let ?w3 = "broadcast ''task:exit'' (JObj [(''taskId'', JStr t), (''code'', exitCodeJson code)])
               (stopLogWatching t (w\<lparr>runningTasks := (runningTasks w)(t := None)\<rparr>))"
  have f: "files ?w3 = files w" by (simp add: broadcast_props stopLogWatching_props)
  have "files (child_on_exit E now t P code w) =
          files (persistFinalStatus E now (artifact P t) (finalStatusOf code) ?w3)"
    by (simp add: child_on_exit_def Let_def broadcast_props artifact_eq)
  also have "\<dots> = (case planJson E (files w) (artifact P t) of
        Some (JObj kvs) \<Rightarrow>
          (files w)(artifact P t \<mapsto> File (JSON_stringify E
             (JObj (obj_set (obj_set (obj_set kvs
                ''status'' (JStr (if code = Some 0 then ''human_review'' else ''backlog'')))
                ''planStatus'' (JStr (if code = Some 0 then ''review'' else ''pending'')))
                ''updated_at'' (JStr now)))))
      | Some (JArr xs) \<Rightarrow> (files w)(artifact P t \<mapsto> File (JSON_stringify E (JArr xs)))
      | _ \<Rightarrow> files w)"
    by (cases "planJson E (files w) (artifact P t)";
        simp add: persistFinalStatus_eq broadcast_props stopLogWatching_props written_props finalStatusOf_def
             split: json.splits)
  finally show ?thesis .
qed


text \<open>
  Claim C6, as amended. When the child of a task exits, the listener removes the handle
  registered for the task and the watcher of the task (clearing its timer), and publishes
  the exit event with the exit code (\<^verbatim>\<open>null\<close> when the child was ended by a signal) and
  the status change to the final status, which is \<^verbatim>\<open>human_review\<close> for exit code 0 and
  \<^verbatim>\<open>backlog\<close> for every other code. The final status is written into the plan artifact
  only if the artifact is a file whose content parses to a JSON object: then
  \<^verbatim>\<open>status\<close>, \<^verbatim>\<open>planStatus\<close> and \<^verbatim>\<open>updated_at\<close> are set in it. An artifact that
  parses to an array is written back as it is, and an artifact that is missing, is a
  directory, does not parse, or parses to anything else is left alone; the status change
  is published in all these cases.
\<close>

theorem exit_handling:
  "runningTasks (child_on_exit E now t P code w) = (runningTasks w)(t := None)
   \<and> logWatchers (child_on_exit E now t P code w) = (logWatchers w)(t := None)
   \<and> (\<exists>added. effects (child_on_exit E now t P code w) = effects w @ added
         \<and> (case logWatchers w t of Some lw \<Rightarrow> ClearInterval (interval lw) \<in> set added | None \<Rightarrow> True)
         \<and> Broadcast ''task:exit''
              (JObj [(''taskId'', JStr t), (''code'', (case code of None \<Rightarrow> JNull | Some c \<Rightarrow> JNum c))])
              \<in> set added
         \<and> Broadcast ''task:statusChange''
              (JObj [(''taskId'', JStr t),
                     (''status'', JStr (if code = Some 0 then ''human_review'' else ''backlog''))])
              \<in> set added
         \<and> (WriteFile (P @ ''/.auto-claude/specs/'' @ t @ ''/implementation_plan.json'') \<in> set added)
             = isDocument (planJson E (files w) (P @ ''/.auto-claude/specs/'' @ t @ ''/implementation_plan.json'')))
   \<and> files (child_on_exit E now t P code w) =
       (case planJson E (files w) (P @ ''/.auto-claude/specs/'' @ t @ ''/implementation_plan.json'') of
          Some (JObj kvs) \<Rightarrow>
            (files w)(P @ ''/.auto-claude/specs/'' @ t @ ''/implementation_plan.json'' \<mapsto>
               File (JSON_stringify E
                 (JObj (obj_set (obj_set (obj_set kvs
                    ''status'' (JStr (if code = Some 0 then ''human_review'' else ''backlog'')))
                    ''planStatus'' (JStr (if code = Some 0 then ''review'' else ''pending'')))
                    ''updated_at'' (JStr now)))))
        | Some (JArr xs) \<Rightarrow>
            (files w)(P @ ''/.auto-claude/specs/'' @ t @ ''/implementation_plan.json'' \<mapsto>
               File (JSON_stringify E (JArr xs)))
        | _ \<Rightarrow> files w)
   \<and> map_of (obj_set (obj_set (obj_set kvs
                ''status'' (JStr (if code = Some 0 then ''human_review'' else ''backlog'')))
                ''planStatus'' (JStr (if code = Some 0 then ''review'' else ''pending'')))
                ''updated_at'' (JStr now)) ''status''
       = Some (JStr (if code = Some 0 then ''human_review'' else ''backlog''))"
proof -
  have a: "artifact P t = P @ ''/.auto-claude/specs/'' @ t @ ''/implementation_plan.json''"
    by (simp add: artifact_def)
  have e: "\<exists>added. effects (child_on_exit E now t P code w) = effects w @ added
         \<and> (case logWatchers w t of Some lw \<Rightarrow> ClearInterval (interval lw) \<in> set added | None \<Rightarrow> True)
         \<and> Broadcast ''task:exit''
              (JObj [(''taskId'', JStr t), (''code'', (case code of None \<Rightarrow> JNull | Some c \<Rightarrow> JNum c))])
              \<in> set added
         \<and> Broadcast ''task:statusChange''
              (JObj [(''taskId'', JStr t),
                     (''status'', JStr (if code = Some 0 then ''human_review'' else ''backlog''))])
              \<in> set added
         \<and> (WriteFile (artifact P t) \<in> set added) = isDocument (planJson E (files w) (artifact P t))"
    unfolding child_on_exit_props(5)
    by (rule exI[where x="(case logWatchers w t of Some lw \<Rightarrow> [ClearInterval (interval lw)] | None \<Rightarrow> [])
       @ [Broadcast ''task:exit''
            (JObj [(''taskId'', JStr t), (''code'', (case code of None \<Rightarrow> JNull | Some c \<Rightarrow> JNum c))])]
       @ (if isDocument (planJson E (files w) (artifact P t)) then [WriteFile (artifact P t)] else [])
       @ [Broadcast ''task:statusChange''
            (JObj [(''taskId'', JStr t),
                   (''status'', JStr (if code = Some 0 then ''human_review'' else ''backlog''))])]"])
       (auto split: option.splits)
  show ?thesis
    using e child_on_exit_files[of E now t P code w]
    unfolding a by (simp add: child_on_exit_props map_of_obj_set)
qed

lemma planJson_running:
  "planJson planEnv (files (runningWorld planRunning)) t1PlanPath = Some planRunningDoc"
  by (simp add: planJson_def runningWorld_def planEnv_def tableEnv_def)

lemma planJson_truncated:
  "planJson planEnv (files (runningWorld planTruncated)) t1PlanPath = None"
  by (simp add: planJson_def runningWorld_def planEnv_def tableEnv_def planTruncated_def planRunning_def)

lemma print_review: "JSON_stringify planEnv planReviewDoc = planReview"
  by (simp add: planEnv_def tableEnv_def)

text \<open>
  Exit code 0 of the child of task \<^verbatim>\<open>T1\<close>, with a plan artifact that holds an object:
  handle and watcher are gone, and the artifact holds the final status.
\<close>

theorem exit_handling_example:
  "runningTasks (child_on_exit planEnv ''2025-01-01T00:10:00.000Z'' ''T1'' ''/proj'' (Some 0)
                   (runningWorld planRunning)) ''T1'' = None
   \<and> logWatchers (child_on_exit planEnv ''2025-01-01T00:10:00.000Z'' ''T1'' ''/proj'' (Some 0)
                   (runningWorld planRunning)) ''T1'' = None
   \<and> files (child_on_exit planEnv ''2025-01-01T00:10:00.000Z'' ''T1'' ''/proj'' (Some 0)
              (runningWorld planRunning)) ''/proj/.auto-claude/specs/T1/implementation_plan.json''
       = Some (File planReview)"
proof -
  have p: "''/proj'' @ ''/.auto-claude/specs/'' @ ''T1'' @ ''/implementation_plan.json'' = t1PlanPath"
    by (simp add: t1PlanPath_def)
  from exit_handling[of planEnv "''2025-01-01T00:10:00.000Z''" "''T1''" "''/proj''" "Some 0"
         "runningWorld planRunning"]
  show ?thesis
    unfolding p planJson_running
    by (simp add: planRunningDoc_def print_review[unfolded planReviewDoc_def]) (simp add: t1PlanPath_def)
qed

text \<open>
  The claim as stated fails: the plan artifact exists, but its text was cut off and does
  not parse. The listener publishes both events and leaves the artifact as it is, so the
  final status is not persisted.
\<close>

theorem exit_handling_counterexample:
  "files (runningWorld planTruncated) t1PlanPath = Some (File planTruncated)
   \<and> files (child_on_exit planEnv ''2025-01-01T00:10:00.000Z'' ''T1'' ''/proj'' (Some 0)
              (runningWorld planTruncated)) t1PlanPath = Some (File planTruncated)
   \<and> effects (child_on_exit planEnv ''2025-01-01T00:10:00.000Z'' ''T1'' ''/proj'' (Some 0)
                (runningWorld planTruncated)) =
       [ClearInterval 1,
        Broadcast ''task:exit'' (JObj [(''taskId'', JStr ''T1''), (''code'', JNum 0)]),
        Broadcast ''task:statusChange'' (JObj [(''taskId'', JStr ''T1''), (''status'', JStr ''human_review'')])]"
  by (simp add: child_on_exit_props child_on_exit_files t1_artifact planJson_truncated)
     (simp add: runningWorld_def)

text \<open>
  Claim C7, as amended. The listener publishes the exit event first; then, only if the
  plan artifact is a file whose content parses to a JSON object or array, it writes the
  artifact (with the final status when the content is an object); then it publishes the
  status change. The status change therefore always follows the exit event it derives
  from, with at most that one write in between, and the write never precedes the exit
  event.
\<close>

theorem exit_event_order:
  "effects (child_on_exit E now t P code w) =
     effects w
       @ (case logWatchers w t of Some lw \<Rightarrow> [ClearInterval (interval lw)] | None \<Rightarrow> [])
       @ [Broadcast ''task:exit''
            (JObj [(''taskId'', JStr t), (''code'', (case code of None \<Rightarrow> JNull | Some c \<Rightarrow> JNum c))])]
       @ (if isDocument (planJson E (files w) (P @ ''/.auto-claude/specs/'' @ t @ ''/implementation_plan.json''))
          then [WriteFile (P @ ''/.auto-claude/specs/'' @ t @ ''/implementation_plan.json'')] else [])
       @ [Broadcast ''task:statusChange''
            (JObj [(''taskId'', JStr t),
                   (''status'', JStr (if code = Some 0 then ''human_review'' else ''backlog''))])]"
  using child_on_exit_props(5)[of E now t P code w] by (simp add: artifact_def)

text \<open>
  The claim as stated fails: with a plan artifact that holds an object, the exit event is
  sent before the status is written, not after.
\<close>

theorem exit_event_order_counterexample:
  "effects (child_on_exit planEnv ''2025-01-01T00:10:00.000Z'' ''T1'' ''/proj'' (Some 0)
              (runningWorld planRunning)) =
     [ClearInterval 1,
      Broadcast ''task:exit'' (JObj [(''taskId'', JStr ''T1''), (''code'', JNum 0)]),
      WriteFile ''/proj/.auto-claude/specs/T1/implementation_plan.json'',
      Broadcast ''task:statusChange'' (JObj [(''taskId'', JStr ''T1''), (''status'', JStr ''human_review'')])]"
  by (simp add: child_on_exit_props t1_artifact planJson_running planRunningDoc_def)
     (simp add: runningWorld_def t1PlanPath_def)

section \<open>One handle per task\<close>


lemma spawnedFor_Nil: "spawnedFor t [] = []"
  by (simp add: spawnedFor_def List.map_filter_def)

lemma spawnedFor_Cons: "spawnedFor t (e # es) = (case spawnFor t e of Some c \<Rightarrow> [c] | None \<Rightarrow> []) @ spawnedFor t es"
  by (simp add: spawnedFor_def List.map_filter_def split: option.splits)

lemma spawnedFor_none: "\<forall>e\<in>set es. \<not> isSpawn e \<Longrightarrow> spawnedFor t es = []"
proof (induction es)
  case Nil
  show ?case by (rule spawnedFor_Nil)
next
  case (Cons e es)
  then show ?case by (cases e) (simp_all add: spawnedFor_Cons)
qed











lemma killed_append: "filter isKill (xs @ ys) = filter isKill xs @ filter isKill ys"
  by simp








section \<open>A start whose child cannot be launched\<close>




section \<open>The base branch of a merge\<close>

lemma planParentBranch_eq:
  "planParentBranch E f p = recordedParent (planJson E f p)"
proof (cases "f p")
  case None
  then show ?thesis by (simp add: planParentBranch_def planJson_def existsSync_def)
next
  case (Some n)
  show ?thesis
  proof (cases n)
    case Dir
    then show ?thesis using Some by (simp add: planParentBranch_def planJson_def existsSync_def readFileSync_def)
  next
    case (File src)
    show ?thesis
    proof (cases "JSON_parse E src")
      case None
      then show ?thesis using Some File
        by (simp add: planParentBranch_def planJson_def existsSync_def readFileSync_def)
    next
      case (Some v)
      then show ?thesis using \<open>f p = Some n\<close> File
        by (cases v) (auto simp: planParentBranch_def planJson_def existsSync_def readFileSync_def
                        split: option.splits)
    qed
  qed
qed

lemma resolveBaseBranch_eq:
  "resolveBaseBranch E P t target w =
     (if truthy target then (case target of Some b \<Rightarrow> (b, w) | None \<Rightarrow> undefined)
      else (case planParentBranch E (files w) (planPathOf P t) of
              Some b \<Rightarrow> (b, w)
            | None \<Rightarrow> ((case fst (exec E RevParseVerifyMain P w) of
                           Inr out \<Rightarrow> JStr ''main'' | Inl err \<Rightarrow> JStr ''master''),
                        snd (exec E RevParseVerifyMain P w))))"
  by (cases target) (auto simp: resolveBaseBranch_def split: option.splits prod.splits sum.splits)

text \<open>
  Claim C5, as amended. The base branch is the explicit target branch if one is given
  (a truthy value); else the \<^verbatim>\<open>parent_branch\<close> recorded in the plan artifact, if the
  artifact is a file that parses to an object and the value is truthy; else \<^verbatim>\<open>main\<close>
  if \<^verbatim>\<open>git rev-parse --verify main\<close> succeeds, and \<^verbatim>\<open>master\<close> if it fails. The
  branch that is checked out is not asked for: the first two sources run no git command
  at all, and the only git command of the third is that verification.
\<close>

theorem base_branch_precedence:
  "(truthy (Some b) \<longrightarrow> resolveBaseBranch E P t (Some b) w = (b, w))
   \<and> (\<not> truthy target
        \<longrightarrow> recordedParent (planJson E (files w) (P @ ''/.auto-claude/specs/'' @ t @ ''/implementation_plan.json''))
              = Some pb
        \<longrightarrow> resolveBaseBranch E P t target w = (pb, w))
   \<and> (\<not> truthy target
        \<longrightarrow> recordedParent (planJson E (files w) (P @ ''/.auto-claude/specs/'' @ t @ ''/implementation_plan.json''))
              = None
        \<longrightarrow> fst (resolveBaseBranch E P t target w) =
              (case fst (execSync E RevParseVerifyMain P (repo w, files w)) of
                 Inr out \<Rightarrow> JStr ''main'' | Inl err \<Rightarrow> JStr ''master'')
            \<and> effects (snd (resolveBaseBranch E P t target w)) = effects w @ [Exec RevParseVerifyMain P]
            \<and> files (snd (resolveBaseBranch E P t target w)) = files w)"
  by (simp add: resolveBaseBranch_eq planParentBranch_eq planPathOf_eq exec_props)

text \<open>
  On branch \<^verbatim>\<open>release\<close>: an explicit target wins over the plan; without a target,
  the plan's \<^verbatim>\<open>parent_branch\<close> is taken; without both, \<^verbatim>\<open>main\<close>.
\<close>

lemma release_plans:
  "planJson releaseEnv (files (demoWorld ((t1PlanPath, File planWithParent) # installFiles)))
     (''/proj'' @ ''/.auto-claude/specs/'' @ ''T1'' @ ''/implementation_plan.json'') = Some planWithParentDoc"
  "planJson releaseEnv (files (demoWorld installFiles))
     (''/proj'' @ ''/.auto-claude/specs/'' @ ''T1'' @ ''/implementation_plan.json'') = None"
  "fst (execSync releaseEnv RevParseVerifyMain ''/proj'' s) = Inr ''4f2a9c1''"
  "fst (execSync releaseEnv RevParseAbbrevHead ''/proj'' s) = Inr ''release''"
  by (simp_all add: planJson_def demoWorld_def releaseEnv_def tableEnv_def t1PlanPath_def installFiles_def
        replyGit_def)

theorem base_branch_precedence_witness:
  "truthy (Some (JStr ''hotfix'')) \<and> \<not> truthy None
   \<and> recordedParent (planJson releaseEnv (files (demoWorld ((t1PlanPath, File planWithParent) # installFiles)))
        (''/proj'' @ ''/.auto-claude/specs/'' @ ''T1'' @ ''/implementation_plan.json'')) = Some (JStr ''develop'')
   \<and> recordedParent (planJson releaseEnv (files (demoWorld installFiles))
        (''/proj'' @ ''/.auto-claude/specs/'' @ ''T1'' @ ''/implementation_plan.json'')) = None
   \<and> fst (resolveBaseBranch releaseEnv ''/proj'' ''T1'' (Some (JStr ''hotfix''))
            (demoWorld ((t1PlanPath, File planWithParent) # installFiles))) = JStr ''hotfix''
   \<and> fst (resolveBaseBranch releaseEnv ''/proj'' ''T1'' None
            (demoWorld ((t1PlanPath, File planWithParent) # installFiles))) = JStr ''develop''
   \<and> fst (resolveBaseBranch releaseEnv ''/proj'' ''T1'' None (demoWorld installFiles)) = JStr ''main''"
proof -
  let ?w = "demoWorld ((t1PlanPath, File planWithParent) # installFiles)"
  have p1: "recordedParent (planJson releaseEnv (files ?w)
        (''/proj'' @ ''/.auto-claude/specs/'' @ ''T1'' @ ''/implementation_plan.json'')) = Some (JStr ''develop'')"
    unfolding release_plans by (simp add: planWithParentDoc_def)
  have p2: "recordedParent (planJson releaseEnv (files (demoWorld installFiles))
        (''/proj'' @ ''/.auto-claude/specs/'' @ ''T1'' @ ''/implementation_plan.json'')) = None"
    unfolding release_plans by simp
  have t: "truthy (Some (JStr ''hotfix''))" "\<not> truthy None" by simp_all
  from base_branch_precedence[of "JStr ''hotfix''" releaseEnv "''/proj''" "''T1''" ?w None "JStr ''develop''"]
  have r1: "fst (resolveBaseBranch releaseEnv ''/proj'' ''T1'' (Some (JStr ''hotfix'')) ?w) = JStr ''hotfix''"
    and r2: "fst (resolveBaseBranch releaseEnv ''/proj'' ''T1'' None ?w) = JStr ''develop''"
    using t p1 by simp_all
  from base_branch_precedence[of "JStr ''hotfix''" releaseEnv "''/proj''" "''T1''"
         "demoWorld installFiles" None]
  have r3: "fst (resolveBaseBranch releaseEnv ''/proj'' ''T1'' None (demoWorld installFiles)) = JStr ''main''"
    using t p2 by (simp add: release_plans)
  show ?thesis using t p1 p2 r1 r2 r3 by simp
qed

text \<open>
  The claim as stated fails: no target branch, no plan artifact, the project is on branch
  \<^verbatim>\<open>release\<close>, and the base branch is \<^verbatim>\<open>main\<close>.
\<close>

theorem base_branch_counterexample:
  "fst (exec releaseEnv RevParseAbbrevHead ''/proj'' (demoWorld installFiles)) = Inr ''release''
   \<and> files (demoWorld installFiles) ''/proj/.auto-claude/specs/T1/implementation_plan.json'' = None
   \<and> fst (resolveBaseBranch releaseEnv ''/proj'' ''T1'' None (demoWorld installFiles)) = JStr ''main''"
proof -
  have p2: "planParentBranch releaseEnv (files (demoWorld installFiles)) (planPathOf ''/proj'' ''T1'') = None"
    unfolding planParentBranch_eq planPathOf_eq release_plans by simp
  have f: "files (demoWorld installFiles) ''/proj/.auto-claude/specs/T1/implementation_plan.json'' = None"
    by (simp add: demoWorld_def installFiles_def)
  show ?thesis
    using f by (simp add: resolveBaseBranch_eq p2 exec_props release_plans)
qed

section \<open>The status of a listed task\<close>

















section \<open>The logs of a task\<close>













end
